theory Spec2Isabelle
  imports Main "HOL-Library.AList"
begin

section \<open>Role-based access control: \<^verbatim>\<open>app/core/permissions.py\<close>\<close>

text \<open>
  The two string enumerations of the module. Looking a role up by its value,
  \<^verbatim>\<open>Role(role)\<close>, raises \<^verbatim>\<open>ValueError\<close> for a string that is not the value of a
  member; the lookup is therefore a sum, and the two functions that call it catch the
  error with their \<^verbatim>\<open>except ValueError\<close> branch.
\<close>

datatype Permission =
    VIEW_DASHBOARD | MANAGE_USERS | EDIT_SETTINGS | VIEW_LOGS
  | MANAGE_CONTENT | EXPORT_DATA | DELETE_RECORDS | MANAGE_ROLES

datatype Role = ADMIN | EDITOR | VIEWER

datatype exn =
    ValueError
  | JWTError
  | ExpiredSignatureError
  | JWTClaimsError
  | MultipleResultsFound
  | HTTPException (status_code: nat) (detail: string) (headers: "(string \<times> string) list option")

definition Permission_members :: "Permission list" where
  "Permission_members =
     [VIEW_DASHBOARD, MANAGE_USERS, EDIT_SETTINGS, VIEW_LOGS,
      MANAGE_CONTENT, EXPORT_DATA, DELETE_RECORDS, MANAGE_ROLES]"

definition Role_of_value :: "string \<Rightarrow> exn + Role" where
  "Role_of_value s =
     (if s = ''admin'' then Inr ADMIN
      else if s = ''editor'' then Inr EDITOR
      else if s = ''viewer'' then Inr VIEWER
      else Inl ValueError)"

definition ROLE_PERMISSIONS :: "(Role \<times> Permission set) list" where
  "ROLE_PERMISSIONS =
     [(ADMIN, set Permission_members),
      (EDITOR, {VIEW_DASHBOARD, MANAGE_CONTENT, VIEW_LOGS, EXPORT_DATA}),
      (VIEWER, {VIEW_DASHBOARD, VIEW_LOGS})]"

text \<open>\<^verbatim>\<open>d.get(k, default)\<close> on a dictionary kept as an association list.\<close>

definition dict_get :: "('k \<times> 'v) list \<Rightarrow> 'k \<Rightarrow> 'v \<Rightarrow> 'v" where
  "dict_get d k dflt = (case map_of d k of None \<Rightarrow> dflt | Some v \<Rightarrow> v)"

definition has_permission :: "string \<Rightarrow> Permission \<Rightarrow> bool" where
  "has_permission role_str permission =
     (case Role_of_value role_str of
        Inl _ \<Rightarrow> False
      | Inr role_enum \<Rightarrow> permission \<in> dict_get ROLE_PERMISSIONS role_enum {})"

definition get_user_permissions :: "string \<Rightarrow> Permission set" where
  "get_user_permissions role_str =
     (case Role_of_value role_str of
        Inl _ \<Rightarrow> {}
      | Inr role_enum \<Rightarrow> dict_get ROLE_PERMISSIONS role_enum {})"


section \<open>Configuration: \<^verbatim>\<open>app/config.py\<close>\<close>

text \<open>
  The fields of \<^verbatim>\<open>Settings\<close> that the security module reads. They are loaded from
  the environment, so every function below takes the settings as an argument;
  \<open>default_settings\<close> holds the values written in the class.
\<close>

record Settings =
  SECRET_KEY :: string
  ALGORITHM :: string
  ACCESS_TOKEN_EXPIRE_MINUTES :: int
  REFRESH_TOKEN_EXPIRE_DAYS :: int

definition default_settings :: Settings where
  "default_settings =
     \<lparr>SECRET_KEY = ''your-secret-key-change-in-production'',
      ALGORITHM = ''HS256'',
      ACCESS_TOKEN_EXPIRE_MINUTES = 30,
      REFRESH_TOKEN_EXPIRE_DAYS = 7\<rparr>"

section \<open>The token library as the security module uses it\<close>

text \<open>
  \<^verbatim>\<open>jwt.encode\<close> and \<^verbatim>\<open>jwt.decode\<close> belong to python-jose, not to this program.
  They are modelled symbolically, in the manner of a Dolev-Yao message algebra:
  \<^item> a claim value is a string or an integer; a point in time is an integer number of
    seconds since the epoch (the library writes a \<^verbatim>\<open>datetime\<close> into the token as
    whole seconds and reads the clock in whole seconds), a \<^verbatim>\<open>timedelta\<close> a number
    of seconds;
  \<^item> the claim set is an association list in insertion order, as a Python dictionary is;
  \<^item> a signature is the term \<open>MAC key alg claims\<close>, and verifying it under a key
    means recomputing that term: signatures of different keys, algorithms or claim
    sets differ, and nothing else is assumed of the hash function;
  \<^item> a token string is either not decodable at all or carries the algorithm of its
    header, its claim set and its signature;
  \<^item> only the HMAC algorithms, to which the configured \<^verbatim>\<open>HS256\<close> belongs, are
    modelled: encoding under any other algorithm name is taken to raise;
  \<^item> a time claim that holds a string is taken to be rejected by the library's
    conversion to an integer; no token issued by this program carries one.
  The checks of \<open>validate_claims\<close> are those the library runs with its default options
  and without an expected audience, issuer, subject or access token, in its order.
\<close>

datatype jvalue = JStr string | JNum int

type_synonym claims = "(string \<times> jvalue) list"

datatype signature = MAC string string claims

datatype token = Undecodable string | JWT string claims signature

definition HMAC_ALGORITHMS :: "string list" where
  "HMAC_ALGORITHMS = [''HS256'', ''HS384'', ''HS512'']"

definition jwt_encode :: "claims \<Rightarrow> string \<Rightarrow> string \<Rightarrow> exn + token" where
  "jwt_encode to_encode key algorithm =
     (if algorithm \<in> set HMAC_ALGORITHMS
      then Inr (JWT algorithm to_encode (MAC key algorithm to_encode))
      else Inl JWTError)"

definition validate_iat :: "claims \<Rightarrow> exn option" where
  "validate_iat c =
     (case map_of c ''iat'' of
        None \<Rightarrow> None
      | Some (JNum _) \<Rightarrow> None
      | Some (JStr _) \<Rightarrow> Some JWTClaimsError)"

definition validate_nbf :: "claims \<Rightarrow> int \<Rightarrow> exn option" where
  "validate_nbf c now =
     (case map_of c ''nbf'' of
        None \<Rightarrow> None
      | Some (JNum nbf) \<Rightarrow> if nbf > now then Some JWTClaimsError else None
      | Some (JStr _) \<Rightarrow> Some JWTClaimsError)"

definition validate_exp :: "claims \<Rightarrow> int \<Rightarrow> exn option" where
  "validate_exp c now =
     (case map_of c ''exp'' of
        None \<Rightarrow> None
      | Some (JNum exp) \<Rightarrow> if exp < now then Some ExpiredSignatureError else None
      | Some (JStr _) \<Rightarrow> Some JWTClaimsError)"

definition validate_aud :: "claims \<Rightarrow> exn option" where
  "validate_aud c =
     (case map_of c ''aud'' of None \<Rightarrow> None | Some _ \<Rightarrow> Some JWTClaimsError)"

definition validate_sub :: "claims \<Rightarrow> exn option" where
  "validate_sub c =
     (case map_of c ''sub'' of
        None \<Rightarrow> None
      | Some (JStr _) \<Rightarrow> None
      | Some (JNum _) \<Rightarrow> Some JWTClaimsError)"

definition validate_jti :: "claims \<Rightarrow> exn option" where
  "validate_jti c =
     (case map_of c ''jti'' of
        None \<Rightarrow> None
      | Some (JStr _) \<Rightarrow> None
      | Some (JNum _) \<Rightarrow> Some JWTClaimsError)"

definition validate_at_hash :: "claims \<Rightarrow> exn option" where
  "validate_at_hash c =
     (case map_of c ''at_hash'' of None \<Rightarrow> None | Some _ \<Rightarrow> Some JWTClaimsError)"

text \<open>The first check that fails raises; when none does, the claims are returned.\<close>

fun first_raised :: "exn option list \<Rightarrow> exn option" where
  "first_raised [] = None"
| "first_raised (None # cs) = first_raised cs"
| "first_raised (Some e # cs) = Some e"

definition validate_claims :: "claims \<Rightarrow> int \<Rightarrow> exn + claims" where
  "validate_claims c now =
     (case first_raised
             [validate_iat c, validate_nbf c now, validate_exp c now, validate_aud c,
              validate_sub c, validate_jti c, validate_at_hash c] of
        Some e \<Rightarrow> Inl e
      | None \<Rightarrow> Inr c)"

fun jwt_decode :: "token \<Rightarrow> string \<Rightarrow> string list \<Rightarrow> int \<Rightarrow> exn + claims" where
  "jwt_decode (Undecodable s) key algorithms now = Inl JWTError"
| "jwt_decode (JWT alg c sg) key algorithms now =
     (if alg \<notin> set algorithms then Inl JWTError
      else if sg \<noteq> MAC key alg c then Inl JWTError
      else validate_claims c now)"

text \<open>
  \<^verbatim>\<open>except JWTError\<close> also catches the two subclasses of \<^verbatim>\<open>JWTError\<close>.
\<close>

fun is_JWTError :: "exn \<Rightarrow> bool" where
  "is_JWTError JWTError = True"
| "is_JWTError ExpiredSignatureError = True"
| "is_JWTError JWTClaimsError = True"
| "is_JWTError _ = False"

section \<open>Tokens and the guard: \<^verbatim>\<open>app/core/security.py\<close>\<close>

text \<open>
  \<^verbatim>\<open>expires_delta or timedelta(...)\<close>: the default is taken when the argument is
  \<^verbatim>\<open>None\<close> and also when it is the zero \<^verbatim>\<open>timedelta\<close>, which Python counts as false.
\<close>

definition timedelta_or :: "int option \<Rightarrow> int \<Rightarrow> int" where
  "timedelta_or expires_delta dflt =
     (case expires_delta of
        None \<Rightarrow> dflt
      | Some d \<Rightarrow> if d = 0 then dflt else d)"

text \<open>
  Both functions read the clock (\<^verbatim>\<open>datetime.utcnow()\<close>), here the argument \<open>now\<close>.
  \<^verbatim>\<open>to_encode.update(...)\<close> overwrites the two keys or appends them.
\<close>

definition create_access_token :: "Settings \<Rightarrow> int \<Rightarrow> claims \<Rightarrow> int option \<Rightarrow> exn + token" where
  "create_access_token settings now data expires_delta =
     (let to_encode = data;
          expire = now + timedelta_or expires_delta (60 * ACCESS_TOKEN_EXPIRE_MINUTES settings);
          to_encode = AList.update ''type'' (JStr ''access'')
                        (AList.update ''exp'' (JNum expire) to_encode)
      in jwt_encode to_encode (SECRET_KEY settings) (ALGORITHM settings))"

definition create_refresh_token :: "Settings \<Rightarrow> int \<Rightarrow> claims \<Rightarrow> int option \<Rightarrow> exn + token" where
  "create_refresh_token settings now data expires_delta =
     (let to_encode = data;
          expire = now + timedelta_or expires_delta (86400 * REFRESH_TOKEN_EXPIRE_DAYS settings);
          to_encode = AList.update ''type'' (JStr ''refresh'')
                        (AList.update ''exp'' (JNum expire) to_encode)
      in jwt_encode to_encode (SECRET_KEY settings) (ALGORITHM settings))"

text \<open>
  The \<^verbatim>\<open>User\<close> model (\<^verbatim>\<open>app/models/user.py\<close>) is not among the sources. The record
  holds the attributes that the sources read or write; \<open>id'\<close> is the primary key in
  the string form that \<^verbatim>\<open>login\<close> writes into the subject claim and that
  \<^verbatim>\<open>get_current_user\<close> compares the subject claim with. The database session is the
  list of rows of the user table.
\<close>

record User =
  id' :: string
  username :: string
  email :: string
  hashed_password :: string
  full_name :: "string option"
  role :: string
  is_active :: bool

text \<open>
  \<^verbatim>\<open>Result.scalar_one_or_none()\<close>: no row gives \<^verbatim>\<open>None\<close>, one row gives the row, more
  rows raise.
\<close>

fun scalar_one_or_none :: "'a list \<Rightarrow> exn + 'a option" where
  "scalar_one_or_none [] = Inr None"
| "scalar_one_or_none [x] = Inr (Some x)"
| "scalar_one_or_none (x # y # zs) = Inl MultipleResultsFound"

definition credentials_exception :: exn where
  "credentials_exception =
     HTTPException 401 ''Could not validate credentials''
       (Some [(''WWW-Authenticate'', ''Bearer'')])"

definition get_current_user :: "Settings \<Rightarrow> int \<Rightarrow> User list \<Rightarrow> token \<Rightarrow> exn + User" where
  "get_current_user settings now db tok =
     (case jwt_decode tok (SECRET_KEY settings) [ALGORITHM settings] now of
        Inl e \<Rightarrow> if is_JWTError e then Inl credentials_exception else Inl e
      | Inr payload \<Rightarrow>
          (case map_of payload ''sub'' of
             None \<Rightarrow> Inl credentials_exception
           | Some user_id \<Rightarrow>
               (case scalar_one_or_none (filter (\<lambda>u. JStr (id' u) = user_id) db) of
                  Inl e \<Rightarrow> Inl e
                | Inr None \<Rightarrow> Inl credentials_exception
                | Inr (Some user) \<Rightarrow>
                    if \<not> is_active user
                    then Inl (HTTPException 403 ''Inactive user account'' None)
                    else Inr user)))"

definition role_hierarchy :: "(string \<times> int) list" where
  "role_hierarchy = [(''admin'', 3), (''manager'', 2), (''viewer'', 1)]"

text \<open>
  \<^verbatim>\<open>require_role(required_role)\<close> returns the dependency \<^verbatim>\<open>role_checker\<close>; the model
  is that dependency, with the required role as its first argument.
\<close>

definition require_role :: "string \<Rightarrow> Settings \<Rightarrow> int \<Rightarrow> User list \<Rightarrow> token \<Rightarrow> exn + User" where
  "require_role required_role settings now db tok =
     (case get_current_user settings now db tok of
        Inl e \<Rightarrow> Inl e
      | Inr user \<Rightarrow>
          (let user_level = dict_get role_hierarchy (role user) 0;
               required_level = dict_get role_hierarchy required_role 99
           in if user_level < required_level
              then Inl (HTTPException 403
                          (''Role '' @ [CHR 0x27] @ required_role @ [CHR 0x27]
                             @ '' or higher is required'') None)
              else Inr user))"


section \<open>Registration and login: \<^verbatim>\<open>app/api/auth.py\<close>\<close>

text \<open>
  The request and response schemas. \<^verbatim>\<open>UserCreate\<close> has the four fields below and
  no other; the field names carry a prefix since the \<^verbatim>\<open>User\<close> record has the plain
  ones.
\<close>

record UserCreate =
  uc_username :: string
  uc_email :: string
  uc_password :: string
  uc_full_name :: "string option"

record UserResponse =
  ur_id :: string
  ur_username :: string
  ur_email :: string
  ur_full_name :: "string option"
  ur_role :: string
  ur_is_active :: bool

record TokenResponse =
  access_token :: token
  refresh_token :: token
  token_type :: string

text \<open>
  What the absent \<^verbatim>\<open>User\<close> model decides for a row created without a role and
  without an activity flag: its column defaults. They are parameters of \<open>register\<close>,
  as are the primary key that the database assigns at \<^verbatim>\<open>flush\<close> and the two
  functions of the password hashing context (\<^verbatim>\<open>get_password_hash\<close> with the salt it
  draws for this call, \<^verbatim>\<open>verify_password\<close>).
\<close>

record User_defaults =
  default_role :: string
  default_is_active :: bool

definition register ::
  "User_defaults \<Rightarrow> (string \<Rightarrow> string) \<Rightarrow> string \<Rightarrow> User list \<Rightarrow> UserCreate
     \<Rightarrow> exn + (UserResponse \<times> User list)" where
  "register model get_password_hash new_id db user_data =
     (case scalar_one_or_none
             (filter (\<lambda>u. username u = uc_username user_data \<or> email u = uc_email user_data) db) of
        Inl e \<Rightarrow> Inl e
      | Inr (Some existing) \<Rightarrow>
          Inl (HTTPException 409 ''Username or email already registered'' None)
      | Inr None \<Rightarrow>
          (let new_user =
                 \<lparr>id' = new_id,
                  username = uc_username user_data,
                  email = uc_email user_data,
                  hashed_password = get_password_hash (uc_password user_data),
                  full_name = uc_full_name user_data,
                  role = default_role model,
                  is_active = default_is_active model\<rparr>
           in Inr (\<lparr>ur_id = id' new_user,
                     ur_username = username new_user,
                     ur_email = email new_user,
                     ur_full_name = full_name new_user,
                     ur_role = role new_user,
                     ur_is_active = is_active new_user\<rparr>,
                   db @ [new_user])))"

definition invalid_login :: exn where
  "invalid_login =
     HTTPException 401 ''Incorrect username or password''
       (Some [(''WWW-Authenticate'', ''Bearer'')])"

definition login ::
  "Settings \<Rightarrow> (string \<Rightarrow> string \<Rightarrow> bool) \<Rightarrow> int \<Rightarrow> User list \<Rightarrow> string \<Rightarrow> string
     \<Rightarrow> exn + TokenResponse" where
  "login settings verify_password now db form_username form_password =
     (case scalar_one_or_none (filter (\<lambda>u. username u = form_username) db) of
        Inl e \<Rightarrow> Inl e
      | Inr None \<Rightarrow> Inl invalid_login
      | Inr (Some user) \<Rightarrow>
          if \<not> verify_password form_password (hashed_password user) then Inl invalid_login
          else if \<not> is_active user
          then Inl (HTTPException 403 ''Account is deactivated'' None)
          else
            (case create_access_token settings now
                    [(''sub'', JStr (id' user)), (''role'', JStr (role user))]
                    (Some (60 * ACCESS_TOKEN_EXPIRE_MINUTES settings)) of
               Inl e \<Rightarrow> Inl e
             | Inr access \<Rightarrow>
                 (case create_refresh_token settings now [(''sub'', JStr (id' user))] None of
                    Inl e \<Rightarrow> Inl e
                  | Inr refresh \<Rightarrow>
                      Inr \<lparr>access_token = access, refresh_token = refresh,
                           token_type = ''bearer''\<rparr>)))"


section \<open>Example data\<close>

text \<open>
  Two rows of the user table and the tokens that \<^verbatim>\<open>login\<close> issues for them at second
  1000 under the default settings.
\<close>

definition alice :: User where
  "alice =
     \<lparr>id' = ''1'', username = ''alice'', email = ''alice@x.com'',
      hashed_password = ''hash-of-Secr3t!'', full_name = None,
      role = ''editor'', is_active = True\<rparr>"

definition root :: User where
  "root =
     \<lparr>id' = ''2'', username = ''root'', email = ''root@x.com'',
      hashed_password = ''hash-of-t0ps3cret'', full_name = Some ''Administrator'',
      role = ''admin'', is_active = True\<rparr>"

definition access_claims :: "string \<Rightarrow> string \<Rightarrow> claims" where
  "access_claims sub r =
     [(''sub'', JStr sub), (''role'', JStr r), (''exp'', JNum 2800), (''type'', JStr ''access'')]"

definition access_token_of :: "string \<Rightarrow> string \<Rightarrow> token" where
  "access_token_of sub r =
     JWT ''HS256'' (access_claims sub r)
       (MAC ''your-secret-key-change-in-production'' ''HS256'' (access_claims sub r))"



section \<open>The permission table\<close>

lemma Permission_members_all: "p \<in> set Permission_members"
  by (cases p) (simp_all add: Permission_members_def)

text \<open>
  C5. For each of the three roles, \<open>has_permission\<close> is the fixed table: \<^verbatim>\<open>admin\<close> holds
  every permission, \<^verbatim>\<open>editor\<close> holds exactly \<^verbatim>\<open>view_dashboard\<close>, \<^verbatim>\<open>manage_content\<close>,
  \<^verbatim>\<open>view_logs\<close> and \<^verbatim>\<open>export_data\<close>, and \<^verbatim>\<open>viewer\<close> holds exactly \<^verbatim>\<open>view_dashboard\<close>
  and \<^verbatim>\<open>view_logs\<close>. The result is a function of the role and the permission alone.
\<close>

theorem has_permission_table:
  "has_permission ''admin'' p
   \<and> (has_permission ''editor'' p \<longleftrightarrow>
        p \<in> {VIEW_DASHBOARD, MANAGE_CONTENT, VIEW_LOGS, EXPORT_DATA})
   \<and> (has_permission ''viewer'' p \<longleftrightarrow> p \<in> {VIEW_DASHBOARD, VIEW_LOGS})"
  using Permission_members_all [of p]
  by (simp add: has_permission_def Role_of_value_def ROLE_PERMISSIONS_def dict_get_def)

text \<open>
  C4. For a role string other than \<^verbatim>\<open>admin\<close>, \<^verbatim>\<open>editor\<close> and \<^verbatim>\<open>viewer\<close>, and any
  permission, \<open>has_permission\<close> is false and \<open>get_user_permissions\<close> is the empty set.
  Both are total functions into \<open>bool\<close> and into sets: the \<^verbatim>\<open>ValueError\<close> of the
  enumeration lookup is caught inside them, so no string makes them raise.
\<close>

theorem unknown_role_fails_closed:
  assumes "r \<notin> {''admin'', ''editor'', ''viewer''}"
  shows "has_permission r p = False \<and> get_user_permissions r = {}"
  using assms by (simp add: has_permission_def get_user_permissions_def Role_of_value_def)

theorem unknown_role_fails_closed_witness:
  "''invalid'' \<notin> {''admin'', ''editor'', ''viewer''}
   \<and> has_permission ''invalid'' VIEW_DASHBOARD = False
   \<and> get_user_permissions ''invalid'' = {}"
  using unknown_role_fails_closed [of "''invalid''" VIEW_DASHBOARD] by simp


section \<open>Decoding and the guard\<close>

lemmas validators =
  validate_iat_def validate_nbf_def validate_exp_def validate_aud_def
  validate_sub_def validate_jti_def validate_at_hash_def

lemma validate_iat_raises: "validate_iat c = Some e \<Longrightarrow> is_JWTError e"
  by (auto simp: validate_iat_def split: option.splits jvalue.splits)

lemma validate_nbf_raises: "validate_nbf c now = Some e \<Longrightarrow> is_JWTError e"
  by (auto simp: validate_nbf_def split: option.splits jvalue.splits if_splits)

lemma validate_exp_raises: "validate_exp c now = Some e \<Longrightarrow> is_JWTError e"
  by (auto simp: validate_exp_def split: option.splits jvalue.splits if_splits)

lemma validate_aud_raises: "validate_aud c = Some e \<Longrightarrow> is_JWTError e"
  by (auto simp: validate_aud_def split: option.splits)

lemma validate_sub_raises: "validate_sub c = Some e \<Longrightarrow> is_JWTError e"
  by (auto simp: validate_sub_def split: option.splits jvalue.splits)

lemma validate_jti_raises: "validate_jti c = Some e \<Longrightarrow> is_JWTError e"
  by (auto simp: validate_jti_def split: option.splits jvalue.splits)

lemma validate_at_hash_raises: "validate_at_hash c = Some e \<Longrightarrow> is_JWTError e"
  by (auto simp: validate_at_hash_def split: option.splits)

lemma first_raised_all:
  "first_raised cs = Some e \<Longrightarrow> (\<And>x. Some x \<in> set cs \<Longrightarrow> P x) \<Longrightarrow> P e"
  by (induction cs rule: first_raised.induct) auto

lemma validate_claims_raises_JWTError:
  assumes "validate_claims c now = Inl e"
  shows "is_JWTError e"
proof -
  from assms have "first_raised
             [validate_iat c, validate_nbf c now, validate_exp c now, validate_aud c,
              validate_sub c, validate_jti c, validate_at_hash c] = Some e"
    by (simp add: validate_claims_def split: option.splits)
  then show ?thesis
  proof (rule first_raised_all)
    fix x
    assume "Some x \<in> set [validate_iat c, validate_nbf c now, validate_exp c now,
              validate_aud c, validate_sub c, validate_jti c, validate_at_hash c]"
    then consider "validate_iat c = Some x" | "validate_nbf c now = Some x"
      | "validate_exp c now = Some x" | "validate_aud c = Some x" | "validate_sub c = Some x"
      | "validate_jti c = Some x" | "validate_at_hash c = Some x"
      by auto
    then show "is_JWTError x"
      by cases (rule validate_iat_raises validate_nbf_raises validate_exp_raises
          validate_aud_raises validate_sub_raises validate_jti_raises
          validate_at_hash_raises; assumption)+
  qed
qed

lemma jwt_decode_raises_JWTError:
  "jwt_decode tok key algs now = Inl e \<Longrightarrow> is_JWTError e"
  by (cases tok) (auto split: if_splits dest: validate_claims_raises_JWTError)

lemma get_current_user_decode_error:
  "jwt_decode tok (SECRET_KEY settings) [ALGORITHM settings] now = Inl e
   \<Longrightarrow> get_current_user settings now db tok = Inl credentials_exception"
  by (simp add: get_current_user_def jwt_decode_raises_JWTError)

lemma get_current_user_resolves:
  assumes "jwt_decode tok (SECRET_KEY settings) [ALGORITHM settings] now = Inr payload"
    and "map_of payload ''sub'' = Some (JStr sub)"
    and "filter (\<lambda>u. id' u = sub) db = [user]"
    and "is_active user"
  shows "get_current_user settings now db tok = Inr user"
  using assms by (simp add: get_current_user_def)










lemma validate_access_claims:
  "validate_claims (access_claims sub r) now =
     (if 2800 < now then Inl ExpiredSignatureError else Inr (access_claims sub r))"
  by (simp add: access_claims_def validate_claims_def validators)


lemma decode_access_token_of:
  "jwt_decode (access_token_of sub r) (SECRET_KEY default_settings)
     [ALGORITHM default_settings] now =
     (if 2800 < now then Inl ExpiredSignatureError else Inr (access_claims sub r))"
  by (simp add: access_token_of_def default_settings_def validate_access_claims)


lemma access_token_resolves:
  assumes "now \<le> 2800" and "filter (\<lambda>u. id' u = sub) db = [user]" and "is_active user"
  shows "get_current_user default_settings now db (access_token_of sub r) = Inr user"
proof -
  have "jwt_decode (access_token_of sub r) (SECRET_KEY default_settings)
          [ALGORITHM default_settings] now = Inr (access_claims sub r)"
    using assms(1) by (simp add: decode_access_token_of)
  moreover have "map_of (access_claims sub r) ''sub'' = Some (JStr sub)"
    by (simp add: access_claims_def)
  ultimately show ?thesis
    using assms(2,3) by (rule get_current_user_resolves)
qed

lemma alice_authenticated:
  "get_current_user default_settings 1000 [alice, root] (access_token_of ''1'' ''editor'')
     = Inr alice"
  by (rule access_token_resolves) (simp_all add: alice_def root_def)

lemma root_authenticated:
  "get_current_user default_settings 1000 [alice, root] (access_token_of ''2'' ''admin'')
     = Inr root"
  by (rule access_token_resolves) (simp_all add: alice_def root_def)








text \<open>
  C7. When the token decodes (valid signature, not expired) and carries a subject that
  no row of the user table has, the guard raises the 401 exception with the detail
  \<^verbatim>\<open>Could not validate credentials\<close> and the \<^verbatim>\<open>WWW-Authenticate\<close> header, and this is
  the very exception it raises for any token that fails to decode, whatever the clock
  and the table are then: the caller cannot tell the two causes apart.
\<close>

theorem unknown_subject_indistinguishable:
  assumes valid: "jwt_decode tok (SECRET_KEY settings) [ALGORITHM settings] now = Inr payload"
    and subject: "map_of payload ''sub'' = Some user_id"
    and missing: "filter (\<lambda>u. JStr (id' u) = user_id) db = []"
    and invalid: "jwt_decode tok' (SECRET_KEY settings) [ALGORITHM settings] now' = Inl e"
  shows "get_current_user settings now db tok =
           Inl (HTTPException 401 ''Could not validate credentials''
                 (Some [(''WWW-Authenticate'', ''Bearer'')]))
         \<and> get_current_user settings now' db' tok' = get_current_user settings now db tok"
proof -
  have "get_current_user settings now db tok = Inl credentials_exception"
    using valid subject missing by (simp add: get_current_user_def)
  moreover have "get_current_user settings now' db' tok' = Inl credentials_exception"
    using invalid by (rule get_current_user_decode_error)
  ultimately show ?thesis by (simp add: credentials_exception_def)
qed

theorem unknown_subject_indistinguishable_witness:
  "get_current_user default_settings 1000 [root] (access_token_of ''1'' ''editor'') =
     Inl (HTTPException 401 ''Could not validate credentials''
           (Some [(''WWW-Authenticate'', ''Bearer'')]))
   \<and> get_current_user default_settings 1000 [alice, root] (Undecodable ''not.a.token'') =
       get_current_user default_settings 1000 [root] (access_token_of ''1'' ''editor'')"
proof -
  have valid: "jwt_decode (access_token_of ''1'' ''editor'') (SECRET_KEY default_settings)
      [ALGORITHM default_settings] 1000 = Inr (access_claims ''1'' ''editor'')"
    by (simp add: decode_access_token_of)
  have sub: "map_of (access_claims ''1'' ''editor'') ''sub'' = Some (JStr ''1'')"
    by (simp add: access_claims_def)
  have missing: "filter (\<lambda>u. JStr (id' u) = JStr ''1'') [root] = []"
    by (simp add: root_def)
  have invalid: "jwt_decode (Undecodable ''not.a.token'') (SECRET_KEY default_settings)
      [ALGORITHM default_settings] 1000 = Inl JWTError"
    by simp
  show ?thesis
    using unknown_subject_indistinguishable [OF valid sub missing invalid]
    by simp
qed

section \<open>The role gate\<close>

lemma user_level_le_3: "dict_get role_hierarchy r 0 \<le> 3"
  by (simp add: dict_get_def role_hierarchy_def)

lemma unknown_required_level:
  "required_role \<notin> {''admin'', ''manager'', ''viewer''}
   \<Longrightarrow> dict_get role_hierarchy required_role 99 = 99"
  by (simp add: dict_get_def role_hierarchy_def)

text \<open>
  C2. The hierarchy table of \<open>require_role\<close> has the keys \<^verbatim>\<open>admin\<close>, \<^verbatim>\<open>manager\<close> and
  \<^verbatim>\<open>viewer\<close>; the role \<^verbatim>\<open>editor\<close> of \<^verbatim>\<open>permissions.py\<close> is not among them and gets
  level 0. An authenticated, active editor is rejected with 403 by a requirement of
  level 1 (\<^verbatim>\<open>viewer\<close>) and of level 2 (\<^verbatim>\<open>manager\<close>).
\<close>

theorem editor_rejected_at_viewer_level:
  "role alice = ''editor'' \<and> is_active alice
   \<and> get_current_user default_settings 1000 [alice, root] (access_token_of ''1'' ''editor'')
       = Inr alice
   \<and> require_role ''viewer'' default_settings 1000 [alice, root]
         (access_token_of ''1'' ''editor'')
       = Inl (HTTPException 403
               (''Role '' @ [CHR 0x27] @ ''viewer'' @ [CHR 0x27] @ '' or higher is required'')
               None)
   \<and> require_role ''manager'' default_settings 1000 [alice, root]
         (access_token_of ''1'' ''editor'')
       = Inl (HTTPException 403
               (''Role '' @ [CHR 0x27] @ ''manager'' @ [CHR 0x27] @ '' or higher is required'')
               None)"
  by (simp add: require_role_def alice_authenticated role_hierarchy_def dict_get_def)
     (simp add: alice_def)

text \<open>
  C9. When the required role is not a key of the hierarchy table, the required level
  is 99 and no user level reaches it: \<open>require_role\<close> never returns a user, and every
  caller whom the guard authenticates, an administrator included, is rejected with 403.
\<close>

theorem unknown_requirement_rejects_all:
  assumes "required_role \<notin> {''admin'', ''manager'', ''viewer''}"
  shows "(\<forall>user. require_role required_role settings now db tok \<noteq> Inr user)
       \<and> (\<forall>user. get_current_user settings now db tok = Inr user \<longrightarrow>
            require_role required_role settings now db tok =
              Inl (HTTPException 403
                    (''Role '' @ [CHR 0x27] @ required_role @ [CHR 0x27]
                       @ '' or higher is required'') None))"
proof -
  have "dict_get role_hierarchy r 0 < dict_get role_hierarchy required_role 99" for r
    using user_level_le_3 [of r] unknown_required_level [OF assms] by simp
  then show ?thesis
    by (simp add: require_role_def Let_def split: sum.splits)
qed

theorem unknown_requirement_rejects_all_witness:
  "''editor'' \<notin> {''admin'', ''manager'', ''viewer''}
   \<and> role root = ''admin''
   \<and> get_current_user default_settings 1000 [alice, root] (access_token_of ''2'' ''admin'')
       = Inr root
   \<and> require_role ''editor'' default_settings 1000 [alice, root]
         (access_token_of ''2'' ''admin'')
       = Inl (HTTPException 403
               (''Role '' @ [CHR 0x27] @ ''editor'' @ [CHR 0x27] @ '' or higher is required'')
               None)"
proof -
  have a: "''editor'' \<notin> {''admin'', ''manager'', ''viewer''}"
    by simp
  have b: "role root = ''admin''"
    by (simp add: root_def)
  show ?thesis
    using a b root_authenticated
      unknown_requirement_rejects_all [OF a, of default_settings 1000 "[alice, root]"
        "access_token_of ''2'' ''admin''"]
    by blast
qed

section \<open>Login and registration\<close>

text \<open>
  C8. A login fails authentication when no row has the submitted username or when
  the row that has it (usernames are unique in the table) holds a hash that the
  password does not verify against. In
  both cases \<open>login\<close> raises the same exception: status 401, the detail
  \<^verbatim>\<open>Incorrect username or password\<close>, the \<^verbatim>\<open>WWW-Authenticate\<close> header.
\<close>

theorem login_generic_failure:
  assumes "filter (\<lambda>u. username u = name) db = []
           \<or> (\<exists>user. filter (\<lambda>u. username u = name) db = [user]
                       \<and> \<not> verify_password pw (hashed_password user))"
  shows "login settings verify_password now db name pw =
           Inl (HTTPException 401 ''Incorrect username or password''
                 (Some [(''WWW-Authenticate'', ''Bearer'')]))"
  using assms by (auto simp: login_def invalid_login_def)

theorem login_generic_failure_witness:
  "login default_settings (\<lambda>pw h. h = ''hash-of-'' @ pw) 1000 [alice, root] ''nobody'' ''Secr3t!'' =
     Inl (HTTPException 401 ''Incorrect username or password''
           (Some [(''WWW-Authenticate'', ''Bearer'')]))
   \<and> login default_settings (\<lambda>pw h. h = ''hash-of-'' @ pw) 1000 [alice, root] ''alice'' ''wrong'' =
     Inl (HTTPException 401 ''Incorrect username or password''
           (Some [(''WWW-Authenticate'', ''Bearer'')]))"
proof -
  have a: "filter (\<lambda>u. username u = ''nobody'') [alice, root] = []"
    by (simp add: alice_def root_def)
  have b: "filter (\<lambda>u. username u = ''alice'') [alice, root] = [alice]
           \<and> \<not> (\<lambda>pw h. h = ''hash-of-'' @ pw) ''wrong'' (hashed_password alice)"
    by (simp add: alice_def root_def)
  show ?thesis
    using login_generic_failure [of "''nobody''" "[alice, root]" "\<lambda>pw h. h = ''hash-of-'' @ pw"
                                   "''Secr3t!''" default_settings 1000]
      login_generic_failure [of "''alice''" "[alice, root]" "\<lambda>pw h. h = ''hash-of-'' @ pw"
                                   "''wrong''" default_settings 1000] a b
    by blast
qed

text \<open>
  C10. \<open>register\<close> creates the row without a role, so the role of the new row and of
  the response is the default of the model, whatever the payload holds: two successful
  registrations create the same role, the rows already in the table are left as they
  are, and no payload creates an administrator unless the default of the model is
  \<^verbatim>\<open>admin\<close>.
\<close>

theorem register_role_is_model_default:
  assumes first: "register model hash1 id1 db1 request1 = Inr (response1, db1')"
    and second: "register model hash2 id2 db2 request2 = Inr (response2, db2')"
  shows "ur_role response1 = default_role model
       \<and> role (last db1') = default_role model
       \<and> butlast db1' = db1
       \<and> ur_role response1 = ur_role response2
       \<and> role (last db1') = role (last db2')
       \<and> (default_role model \<noteq> ''admin'' \<longrightarrow>
            ur_role response1 \<noteq> ''admin'' \<and> role (last db1') \<noteq> ''admin'')"
proof -
  have one: "ur_role resp = default_role model \<and> role (last db') = default_role model
             \<and> butlast db' = db"
    if "register model h i db req = Inr (resp, db')" for h i db req resp db'
    using that
    by (auto simp: register_def Let_def split: sum.splits option.splits)
  from one [OF first] one [OF second] show ?thesis by simp
qed

theorem register_role_is_model_default_witness:
  "\<exists>response1 db1' response2 db2'.
     register \<lparr>default_role = ''viewer'', default_is_active = True\<rparr> (\<lambda>pw. ''hash-of-'' @ pw)
       ''3'' [alice, root]
       \<lparr>uc_username = ''carol'', uc_email = ''carol@x.com'', uc_password = ''pw'',
        uc_full_name = Some ''admin''\<rparr> = Inr (response1, db1')
   \<and> register \<lparr>default_role = ''viewer'', default_is_active = True\<rparr> (\<lambda>pw. ''hash-of-'' @ pw)
       ''1'' []
       \<lparr>uc_username = ''admin'', uc_email = ''admin@x.com'', uc_password = ''admin'',
        uc_full_name = None\<rparr> = Inr (response2, db2')
   \<and> ur_role response1 = ''viewer'' \<and> ur_role response2 = ''viewer''
   \<and> role (last db1') = ''viewer'' \<and> role (last db2') = ''viewer''
   \<and> butlast db1' = [alice, root]"
proof -
  obtain response1 db1' where first:
    "register \<lparr>default_role = ''viewer'', default_is_active = True\<rparr> (\<lambda>pw. ''hash-of-'' @ pw)
       ''3'' [alice, root]
       \<lparr>uc_username = ''carol'', uc_email = ''carol@x.com'', uc_password = ''pw'',
        uc_full_name = Some ''admin''\<rparr> = Inr (response1, db1')"
    by (simp add: register_def alice_def root_def)
  obtain response2 db2' where second:
    "register \<lparr>default_role = ''viewer'', default_is_active = True\<rparr> (\<lambda>pw. ''hash-of-'' @ pw)
       ''1'' []
       \<lparr>uc_username = ''admin'', uc_email = ''admin@x.com'', uc_password = ''admin'',
        uc_full_name = None\<rparr> = Inr (response2, db2')"
    by (simp add: register_def)
  show ?thesis
    using register_role_is_model_default [OF first second]
      register_role_is_model_default [OF second first] first second
    by (intro exI [of _ response1] exI [of _ db1'] exI [of _ response2] exI [of _ db2']) simp
qed

end
